theory Spec2Isabelle
  imports Complex_Main "HOL-Library.Word"
begin

section \<open>Python floats\<close>

text \<open>
  Every monetary amount and every volume of the service is a Python \<open>float\<close>, an IEEE-754
  binary64 value. A finite float is represented by the rational number it denotes; the two
  infinities and NaN are separate values. The two zeros are identified: they compare equal
  and are both falsy, and the service never prints or divides by one.
\<close>

datatype pyfloat = Fin rat | PInf | NInf | NaN

definition pow2 :: "int \<Rightarrow> rat" where
  "pow2 e = (if 0 \<le> e then 2 ^ nat e else 1 / 2 ^ nat (- e))"

text \<open>\<open>int.bit_length\<close>: the number of binary digits of a positive integer.\<close>

function bit_length :: "int \<Rightarrow> int" where
  "bit_length n = (if n \<le> 0 then 0 else bit_length (n div 2) + 1)"
  by pat_completeness auto
termination
  by (relation "measure nat") auto

declare bit_length.simps [simp del]

text \<open>The integer \<open>k\<close> with \<open>2 ^ k \<le> a < 2 ^ (k + 1)\<close>, for a positive rational \<open>a\<close>.\<close>

definition ilog2 :: "rat \<Rightarrow> int" where
  "ilog2 a =
     (let (p, q) = quotient_of a;
          k = bit_length p - bit_length q
      in if pow2 k \<le> a then k else k - 1)"

text \<open>Rounding to the nearest integer, a tie going to the even neighbour.\<close>

definition round_half_even :: "rat \<Rightarrow> int" where
  "round_half_even x =
     (let f = \<lfloor>x\<rfloor>; d = x - of_int f
      in if d < 1 / 2 then f
         else if 1 / 2 < d then f + 1
         else if even f then f else f + 1)"

text \<open>
  The binary64 value nearest to a rational (round to nearest, ties to even): 53 significant
  bits, the smallest spacing \<open>2 ^ -1074\<close> (gradual underflow), and overflow to an infinity
  from \<open>2 ^ 1024 - 2 ^ 970\<close> on, which is where the rounded significand \<open>m\<close> would need
  an exponent above \<open>971\<close>.
\<close>

definition fl :: "rat \<Rightarrow> pyfloat" where
  "fl x =
     (if x = 0 then Fin 0
      else let a = \<bar>x\<bar>;
               e = max (ilog2 a - 52) (- 1074);
               m = round_half_even (a / pow2 e);
               y = of_int m * pow2 e
           in if 971 < e \<or> (e = 971 \<and> m = 2 ^ 53) then (if 0 < x then PInf else NInf)
              else Fin (if 0 < x then y else - y))"

text \<open>
  A decimal literal is the float nearest to it: \<open>py_lit 218 2\<close> is the literal \<open>2.18\<close>,
  the digits \<open>218\<close> with two of them after the point.
\<close>

definition py_lit :: "int \<Rightarrow> nat \<Rightarrow> pyfloat" where
  "py_lit digits decimals = fl (of_int digits / 10 ^ decimals)"

fun pf_add :: "pyfloat \<Rightarrow> pyfloat \<Rightarrow> pyfloat" where
  "pf_add NaN _ = NaN"
| "pf_add _ NaN = NaN"
| "pf_add (Fin a) (Fin b) = fl (a + b)"
| "pf_add PInf NInf = NaN"
| "pf_add NInf PInf = NaN"
| "pf_add PInf _ = PInf"
| "pf_add NInf _ = NInf"
| "pf_add (Fin a) PInf = PInf"
| "pf_add (Fin a) NInf = NInf"

fun pf_neg :: "pyfloat \<Rightarrow> pyfloat" where
  "pf_neg (Fin a) = Fin (- a)"
| "pf_neg PInf = NInf"
| "pf_neg NInf = PInf"
| "pf_neg NaN = NaN"

definition pf_sub :: "pyfloat \<Rightarrow> pyfloat \<Rightarrow> pyfloat" where
  "pf_sub x y = pf_add x (pf_neg y)"

text \<open>The sign of a float that is not NaN: \<open>-1\<close>, \<open>0\<close> or \<open>1\<close>.\<close>

fun pf_sign :: "pyfloat \<Rightarrow> int" where
  "pf_sign (Fin a) = (if a < 0 then - 1 else if a = 0 then 0 else 1)"
| "pf_sign PInf = 1"
| "pf_sign NInf = - 1"
| "pf_sign NaN = 0"

fun pf_mul :: "pyfloat \<Rightarrow> pyfloat \<Rightarrow> pyfloat" where
  "pf_mul NaN _ = NaN"
| "pf_mul _ NaN = NaN"
| "pf_mul (Fin a) (Fin b) = fl (a * b)"
| "pf_mul x y =
     (let s = pf_sign x * pf_sign y
      in if s = 0 then NaN else if 0 < s then PInf else NInf)"

text \<open>Float division; \<open>None\<close> is Python's \<open>ZeroDivisionError\<close>.\<close>

fun pf_div :: "pyfloat \<Rightarrow> pyfloat \<Rightarrow> pyfloat option" where
  "pf_div NaN (Fin b) = (if b = 0 then None else Some NaN)"
| "pf_div NaN _ = Some NaN"
| "pf_div _ NaN = Some NaN"
| "pf_div (Fin a) (Fin b) = (if b = 0 then None else Some (fl (a / b)))"
| "pf_div (Fin a) _ = Some (Fin 0)"
| "pf_div x (Fin b) =
     (if b = 0 then None
      else Some (if 0 < pf_sign x * pf_sign (Fin b) then PInf else NInf))"
| "pf_div _ _ = Some NaN"

text \<open>
  \<open>round(x, 2)\<close>: the exact value of a finite \<open>x\<close> is rounded to two decimals, ties to
  even, and the decimal result is read back as a float; infinities and NaN round to
  themselves.
\<close>

fun round2 :: "pyfloat \<Rightarrow> pyfloat" where
  "round2 (Fin a) = fl (of_int (round_half_even (a * 100)) / 100)"
| "round2 x = x"

text \<open>Comparisons; every comparison with NaN is false.\<close>

fun pf_lt :: "pyfloat \<Rightarrow> pyfloat \<Rightarrow> bool" where
  "pf_lt NaN _ = False"
| "pf_lt _ NaN = False"
| "pf_lt (Fin a) (Fin b) = (a < b)"
| "pf_lt _ NInf = False"
| "pf_lt PInf _ = False"
| "pf_lt NInf _ = True"
| "pf_lt _ PInf = True"

definition pf_gt :: "pyfloat \<Rightarrow> pyfloat \<Rightarrow> bool" where
  "pf_gt x y = pf_lt y x"

fun pf_le :: "pyfloat \<Rightarrow> pyfloat \<Rightarrow> bool" where
  "pf_le NaN _ = False"
| "pf_le _ NaN = False"
| "pf_le x y = (\<not> pf_lt y x)"

definition pf_ge :: "pyfloat \<Rightarrow> pyfloat \<Rightarrow> bool" where
  "pf_ge x y = pf_le y x"


text \<open>Truthiness of a float: only zero is falsy.\<close>

definition pf_truthy :: "pyfloat \<Rightarrow> bool" where
  "pf_truthy x = (x \<noteq> Fin 0)"

section \<open>Documents, collections and errors\<close>

text \<open>
  The service keeps four MongoDB collections, named after the classes of \<open>schemas.py\<close>. A
  collection is the list of its documents in insertion order. Every document has an
  \<open>_id\<close>; the service only ever reads the \<open>_id\<close> of customers and of pump sessions, so
  only those two carry it here. A time stamp is a number of microseconds since the epoch.
\<close>

type_synonym objectid = nat

type_synonym datetime = int

record customer_doc =
  c_id :: objectid
  c_name :: string
  c_phone :: string
  c_email :: "string option"
  c_pin :: string
  c_balance :: pyfloat
  c_active :: bool
  c_updated_at :: "datetime option"

record creditevent_doc =
  ce_customer_id :: string
  ce_amount :: pyfloat
  ce_note :: "string option"

record fueltransaction_doc =
  tx_customer_id :: string
  tx_grade :: string
  tx_liters :: pyfloat
  tx_price_per_liter :: pyfloat
  tx_total :: pyfloat
  tx_pump_id :: string
  tx_status :: string
  tx_receipt_no :: "string option"

record pumpsession_doc =
  ps_id :: objectid
  ps_token :: string
  ps_customer_id :: string
  ps_pump_id :: string
  ps_expires_at :: datetime
  ps_used :: bool
  ps_updated_at :: "datetime option"

record db =
  customer :: "customer_doc list"
  creditevent :: "creditevent_doc list"
  fueltransaction :: "fueltransaction_doc list"
  pumpsession :: "pumpsession_doc list"

text \<open>
  An endpoint either returns or raises. \<open>HTTPException\<close> carries the status code and the
  detail of the source; \<open>ValidationError\<close> is what a pydantic model raises when a field
  constraint of \<open>schemas.py\<close> fails, which no endpoint catches.
\<close>

datatype error = HTTPException nat string | ValidationError | ZeroDivisionError

definition InvalidIdFormat :: error where
  "InvalidIdFormat = HTTPException 400 ''Invalid id format''"

definition CustomerNotFound :: error where
  "CustomerNotFound = HTTPException 404 ''Customer not found''"

definition AmountNotPositive :: error where
  "AmountNotPositive = HTTPException 400 ''Amount must be positive''"

definition InvalidGrade :: error where
  "InvalidGrade = HTTPException 400 ''Invalid grade''"

definition SessionNotFound :: error where
  "SessionNotFound = HTTPException 404 ''Session not found''"

definition SessionAlreadyUsed :: error where
  "SessionAlreadyUsed = HTTPException 400 ''Session already used''"

definition SessionExpired :: error where
  "SessionExpired = HTTPException 400 ''Session expired''"

definition InsufficientBalance :: error where
  "InsufficientBalance = HTTPException 400 ''Insufficient balance''"

text \<open>
  The module \<open>database\<close> (\<open>db\<close>, \<open>create_document\<close>) is not among the sources. It is taken
  to be a plain MongoDB client: \<open>find_one\<close> returns the first document that matches,
  \<open>update_one\<close> changes the first document that matches and nothing when there is none,
  \<open>create_document\<close> appends the document and stores a time stamp as it is given.
\<close>

definition find_one :: "('a \<Rightarrow> bool) \<Rightarrow> 'a list \<Rightarrow> 'a option" where
  "find_one p xs = List.find p xs"

fun update_one :: "('a \<Rightarrow> bool) \<Rightarrow> ('a \<Rightarrow> 'a) \<Rightarrow> 'a list \<Rightarrow> 'a list" where
  "update_one p f [] = []"
| "update_one p f (x # xs) = (if p x then f x # xs else x # update_one p f xs)"

definition create_document :: "'a \<Rightarrow> 'a list \<Rightarrow> 'a list" where
  "create_document doc xs = xs @ [doc]"

section \<open>Helpers of \<open>main.py\<close>\<close>

definition FUEL_PRICES :: "string \<rightharpoonup> pyfloat" where
  "FUEL_PRICES =
     map_of [(''G91'', py_lit 218 2),
             (''G95'', py_lit 233 2),
             (''Diesel'', py_lit 166 2)]"

text \<open>
  \<open>ObjectId(id_str)\<close> accepts a string of 24 hexadecimal digits, in either case, and
  denotes the 12-byte number they spell; anything else raises.
\<close>

definition hex_digit :: "char \<Rightarrow> nat option" where
  "hex_digit c =
     (let n = of_char c :: nat
      in if 48 \<le> n \<and> n \<le> 57 then Some (n - 48)
         else if 97 \<le> n \<and> n \<le> 102 then Some (n - 87)
         else if 65 \<le> n \<and> n \<le> 70 then Some (n - 55)
         else None)"

fun hex_value :: "nat \<Rightarrow> string \<Rightarrow> nat option" where
  "hex_value acc [] = Some acc"
| "hex_value acc (c # cs) =
     (case hex_digit c of None \<Rightarrow> None | Some d \<Rightarrow> hex_value (16 * acc + d) cs)"

definition oid :: "string \<Rightarrow> error + objectid" where
  "oid id_str =
     (if length id_str = 24
      then (case hex_value 0 id_str of None \<Rightarrow> Inl InvalidIdFormat | Some n \<Rightarrow> Inr n)
      else Inl InvalidIdFormat)"

definition customer_or_404 :: "string \<Rightarrow> db \<Rightarrow> error + customer_doc" where
  "customer_or_404 customer_id s =
     (case oid customer_id of
        Inl e \<Rightarrow> Inl e
      | Inr i \<Rightarrow>
          (case find_one (\<lambda>c. c_id c = i) (customer s) of
             None \<Rightarrow> Inl CustomerNotFound
           | Some cust \<Rightarrow> Inr cust))"

text \<open>\<open>bytes.hex()\<close>: two lower-case hexadecimal digits for each byte.\<close>

definition hex_char :: "nat \<Rightarrow> char" where
  "hex_char n = (if n < 10 then char_of (48 + n) else char_of (87 + n))"

definition hex :: "8 word list \<Rightarrow> string" where
  "hex bs = concat (map (\<lambda>b. [hex_char (unat b div 16), hex_char (unat b mod 16)]) bs)"

text \<open>\<open>str(n)\<close> for an integer: its decimal digits, after a minus sign when negative.\<close>

function str_digits :: "int \<Rightarrow> string" where
  "str_digits n =
     (if n < 10 then [char_of (48 + n)]
      else str_digits (n div 10) @ [char_of (48 + n mod 10)])"
  by pat_completeness auto
termination
  by (relation "measure nat") auto

declare str_digits.simps [simp del]

definition str_int :: "int \<Rightarrow> string" where
  "str_int i = (if i < 0 then CHR ''-'' # str_digits (- i) else str_digits i)"

text \<open>
  \<open>int(datetime.now().timestamp())\<close>: the whole seconds since the epoch. The time stamp is
  a float, whose rounding cannot reach the next second for any clock value before the
  year 2242, so the integer is taken directly.
\<close>

definition int_timestamp :: "datetime \<Rightarrow> int" where
  "int_timestamp now =
     (if 0 \<le> now then now div 1000000 else - ((- now) div 1000000))"

section \<open>The models of \<open>schemas.py\<close>\<close>

text \<open>
  Constructing a model validates its fields: \<open>gt=0\<close> on a float is the comparison
  \<open>value > 0\<close>, which NaN fails, and a \<open>Literal\<close> field must be one of its values.
\<close>

definition CreditEvent :: "string \<Rightarrow> pyfloat \<Rightarrow> string option \<Rightarrow> error + creditevent_doc" where
  "CreditEvent customer_id amount note =
     (if pf_gt amount (Fin 0)
      then Inr \<lparr>ce_customer_id = customer_id, ce_amount = amount, ce_note = note\<rparr>
      else Inl ValidationError)"

definition FuelTransaction ::
  "string \<Rightarrow> string \<Rightarrow> pyfloat \<Rightarrow> pyfloat \<Rightarrow> pyfloat \<Rightarrow> string \<Rightarrow> string \<Rightarrow> string option
     \<Rightarrow> error + fueltransaction_doc" where
  "FuelTransaction customer_id grade liters price_per_liter total' pump_id status receipt_no =
     (if grade \<in> set [''G91'', ''G95'', ''Diesel'']
         \<and> pf_gt liters (Fin 0) \<and> pf_gt price_per_liter (Fin 0) \<and> pf_gt total' (Fin 0)
         \<and> status \<in> set [''confirmed'', ''cancelled'']
      then Inr \<lparr>tx_customer_id = customer_id, tx_grade = grade, tx_liters = liters,
                tx_price_per_liter = price_per_liter, tx_total = total', tx_pump_id = pump_id,
                tx_status = status, tx_receipt_no = receipt_no\<rparr>
      else Inl ValidationError)"

text \<open>
  No field of \<open>PumpSession\<close> is constrained. The \<open>_id\<close> of the stored document is the one
  the database gives it on insertion.
\<close>

definition PumpSession ::
  "objectid \<Rightarrow> string \<Rightarrow> string \<Rightarrow> string \<Rightarrow> datetime \<Rightarrow> bool \<Rightarrow> pumpsession_doc" where
  "PumpSession new_id token customer_id pump_id expires_at used =
     \<lparr>ps_id = new_id, ps_token = token, ps_customer_id = customer_id, ps_pump_id = pump_id,
      ps_expires_at = expires_at, ps_used = used, ps_updated_at = None\<rparr>"

section \<open>The endpoints\<close>

text \<open>
  An endpoint takes what it reads from its environment (the clock, the random bytes, the
  \<open>_id\<close> of an inserted document), its request and the database; it returns its response
  or the exception it raises, and the database as it has left it. The clock is read once
  for each call.
\<close>

record topup_resp =
  tr_customer_id :: string
  tr_balance :: pyfloat

definition topup ::
  "datetime \<Rightarrow> string \<Rightarrow> pyfloat \<Rightarrow> string option \<Rightarrow> db \<Rightarrow> (error + topup_resp) \<times> db" where
  "topup now customer_id amount note s =
     (if pf_le amount (Fin 0) then (Inl AmountNotPositive, s)
      else case customer_or_404 customer_id s of
        Inl e \<Rightarrow> (Inl e, s)
      | Inr cust \<Rightarrow>
          let new_balance = pf_add (c_balance cust) amount;
              s1 = s\<lparr>customer :=
                     update_one (\<lambda>c. c_id c = c_id cust)
                       (\<lambda>c. c\<lparr>c_balance := new_balance, c_updated_at := Some now\<rparr>)
                       (customer s)\<rparr>
          in case CreditEvent customer_id amount note of
               Inl e \<Rightarrow> (Inl e, s1)
             | Inr ce \<Rightarrow>
                 (Inr \<lparr>tr_customer_id = customer_id, tr_balance = new_balance\<rparr>,
                  s1\<lparr>creditevent := create_document ce (creditevent s1)\<rparr>))"

definition get_balance :: "string \<Rightarrow> db \<Rightarrow> (error + pyfloat \<times> string) \<times> db" where
  "get_balance customer_id s =
     (case customer_or_404 customer_id s of
        Inl e \<Rightarrow> (Inl e, s)
      | Inr cust \<Rightarrow> (Inr (c_balance cust, c_name cust), s))"

record start_resp =
  sr_token :: string
  sr_expires_in_sec :: nat

definition start_pump_session ::
  "datetime \<Rightarrow> 8 word list \<Rightarrow> objectid \<Rightarrow> string \<Rightarrow> string \<Rightarrow> db \<Rightarrow> (error + start_resp) \<times> db" where
  "start_pump_session now urandom new_id customer_id pump_id s =
     (case customer_or_404 customer_id s of
        Inl e \<Rightarrow> (Inl e, s)
      | Inr _ \<Rightarrow>
          let token = hex urandom;
              session = PumpSession new_id token customer_id pump_id (now + 300000000) False
          in (Inr \<lparr>sr_token = token, sr_expires_in_sec = 300\<rparr>,
              s\<lparr>pumpsession := create_document session (pumpsession s)\<rparr>))"

record calc_resp =
  cl_grade :: string
  cl_price :: pyfloat
  cl_max_liters :: pyfloat

definition calc_liters :: "string \<Rightarrow> string \<Rightarrow> db \<Rightarrow> (error + calc_resp) \<times> db" where
  "calc_liters customer_id grade s =
     (case customer_or_404 customer_id s of
        Inl e \<Rightarrow> (Inl e, s)
      | Inr cust \<Rightarrow>
          (case FUEL_PRICES grade of
             None \<Rightarrow> (Inl InvalidGrade, s)
           | Some price \<Rightarrow>
               if \<not> pf_truthy price then (Inl InvalidGrade, s)
               else (case pf_div (c_balance cust) price of
                       None \<Rightarrow> (Inl ZeroDivisionError, s)
                     | Some q \<Rightarrow>
                         (Inr \<lparr>cl_grade = grade, cl_price = price, cl_max_liters = round2 q\<rparr>,
                          s))))"

record confirm_resp =
  cr_customer_id :: string
  cr_new_balance :: pyfloat
  cr_total :: pyfloat
  cr_grade :: string
  cr_liters :: pyfloat
  cr_price_per_liter :: pyfloat
  cr_receipt_no :: "string option"

definition confirm_dispense ::
  "datetime \<Rightarrow> string \<Rightarrow> pyfloat \<Rightarrow> string \<Rightarrow> db \<Rightarrow> (error + confirm_resp) \<times> db" where
  "confirm_dispense now token liters grade s =
     (case find_one (\<lambda>p. ps_token p = token) (pumpsession s) of
        None \<Rightarrow> (Inl SessionNotFound, s)
      | Some ps \<Rightarrow>
          if ps_used ps then (Inl SessionAlreadyUsed, s)
          else if ps_expires_at ps < now then (Inl SessionExpired, s)
          else case customer_or_404 (ps_customer_id ps) s of
            Inl e \<Rightarrow> (Inl e, s)
          | Inr cust \<Rightarrow>
              (case FUEL_PRICES grade of
                 None \<Rightarrow> (Inl InvalidGrade, s)
               | Some price \<Rightarrow>
                   if \<not> pf_truthy price then (Inl InvalidGrade, s)
                   else
                     let total = round2 (pf_mul liters price);
                         balance = c_balance cust
                     in if pf_gt total balance then (Inl InsufficientBalance, s)
                        else
                          let new_balance = round2 (pf_sub balance total);
                              s1 = s\<lparr>customer :=
                                     update_one (\<lambda>c. c_id c = c_id cust)
                                       (\<lambda>c. c\<lparr>c_balance := new_balance,
                                               c_updated_at := Some now\<rparr>)
                                       (customer s)\<rparr>
                          in case FuelTransaction (ps_customer_id ps) grade liters price total
                                    (ps_pump_id ps) ''confirmed''
                                    (Some (''RX'' @ str_int (int_timestamp now))) of
                               Inl e \<Rightarrow> (Inl e, s1)
                             | Inr tx \<Rightarrow>
                                 let s2 = s1\<lparr>fueltransaction :=
                                               create_document tx (fueltransaction s1)\<rparr>;
                                     s3 = s2\<lparr>pumpsession :=
                                               update_one (\<lambda>p. ps_id p = ps_id ps)
                                                 (\<lambda>p. p\<lparr>ps_used := True,
                                                         ps_updated_at := Some now\<rparr>)
                                                 (pumpsession s2)\<rparr>
                                 in (Inr \<lparr>cr_customer_id = ps_customer_id ps,
                                          cr_new_balance = new_balance, cr_total = total,
                                          cr_grade = grade, cr_liters = liters,
                                          cr_price_per_liter = price,
                                          cr_receipt_no = tx_receipt_no tx\<rparr>,
                                     s3)))"

section \<open>A small database\<close>

text \<open>
  Two customers with 50.00 of credit each, the second one deactivated, and one open pump
  session for each of them, both expiring at the same instant. The theorems below are
  instantiated on it.
\<close>

definition cust0 :: customer_doc where
  "cust0 = \<lparr>c_id = 1, c_name = ''Ann'', c_phone = ''5550001'', c_email = None, c_pin = ''1234'',
            c_balance = Fin 50, c_active = True, c_updated_at = None\<rparr>"

definition cust1 :: customer_doc where
  "cust1 = \<lparr>c_id = 2, c_name = ''Bob'', c_phone = ''5550002'', c_email = None, c_pin = ''4321'',
            c_balance = Fin 50, c_active = False, c_updated_at = None\<rparr>"

definition ps0 :: pumpsession_doc where
  "ps0 = PumpSession 7 ''a1b2c3d4e5f6'' ''000000000000000000000001'' ''pump-1''
           1700000300000000 False"

definition ps1 :: pumpsession_doc where
  "ps1 = PumpSession 8 ''0f1e2d3c4b5a'' ''000000000000000000000002'' ''pump-2''
           1700000300000000 False"

definition db0 :: db where
  "db0 = \<lparr>customer = [cust0, cust1], creditevent = [], fueltransaction = [],
          pumpsession = [ps0, ps1]\<rparr>"

section \<open>Facts about the helpers\<close>

lemma price_G91: "py_lit 218 2 = Fin (4908923593833841 / 2251799813685248)"
  by code_simp

lemma price_G95: "py_lit 233 2 = Fin (1311673391471657 / 562949953421312)"
  by code_simp

lemma price_Diesel: "py_lit 166 2 = Fin (7475975381435023 / 4503599627370496)"
  by code_simp

lemma FUEL_PRICES_cases:
  "FUEL_PRICES grade = Some price \<Longrightarrow>
     price = Fin (4908923593833841 / 2251799813685248)
     \<or> price = Fin (1311673391471657 / 562949953421312)
     \<or> price = Fin (7475975381435023 / 4503599627370496)"
  by (auto simp: FUEL_PRICES_def price_G91 price_G95 price_Diesel split: if_splits)

lemma FUEL_PRICES_truthy: "FUEL_PRICES grade = Some price \<Longrightarrow> pf_truthy price"
  by (drule FUEL_PRICES_cases) (auto simp: pf_truthy_def)

lemma FUEL_PRICES_positive: "FUEL_PRICES grade = Some price \<Longrightarrow> \<exists>r. price = Fin r \<and> 1 < r"
  by (drule FUEL_PRICES_cases) auto

lemma FUEL_PRICES_G91: "FUEL_PRICES ''G91'' = Some (py_lit 218 2)"
  by (simp add: FUEL_PRICES_def)

text \<open>Updating the document that a query has found leaves it where the query finds it.\<close>

lemma find_update_same:
  "List.find p xs = Some x \<Longrightarrow> p (f x) \<Longrightarrow> List.find p (update_one p f xs) = Some (f x)"
  by (induction xs) (auto split: if_splits)

lemma find_token_update_id:
  assumes "distinct (map ps_id xs)"
    and "List.find (\<lambda>p. ps_token p = t) xs = Some ps"
    and "\<And>p. ps_token (f p) = ps_token p"
  shows "List.find (\<lambda>p. ps_token p = t) (update_one (\<lambda>p. ps_id p = ps_id ps) f xs) = Some (f ps)"
  using assms(1,2)
proof (induction xs)
  case Nil
  then show ?case by simp
next
  case (Cons x xs)
  show ?case
  proof (cases "ps_token x = t")
    case True
    with Cons.prems have "x = ps" by simp
    with True assms(3) show ?thesis by simp
  next
    case False
    with Cons.prems have in_tail: "List.find (\<lambda>p. ps_token p = t) xs = Some ps" by simp
    then have "ps \<in> set xs" by (auto simp: find_Some_iff in_set_conv_nth)
    with Cons.prems(1) have "ps_id x \<noteq> ps_id ps" by auto
    with False Cons.IH in_tail Cons.prems(1) assms(3) show ?thesis by simp
  qed
qed

lemma confirm_dispense_success:
  assumes "confirm_dispense now token liters grade s = (Inr r, s')"
  obtains ps cust price tx where
    "find_one (\<lambda>p. ps_token p = token) (pumpsession s) = Some ps"
    "\<not> ps_used ps" "\<not> ps_expires_at ps < now"
    "customer_or_404 (ps_customer_id ps) s = Inr cust"
    "FUEL_PRICES grade = Some price"
    "\<not> pf_gt (round2 (pf_mul liters price)) (c_balance cust)"
    "FuelTransaction (ps_customer_id ps) grade liters price (round2 (pf_mul liters price))
       (ps_pump_id ps) ''confirmed'' (Some (''RX'' @ str_int (int_timestamp now))) = Inr tx"
    "fueltransaction s' = fueltransaction s @ [tx]"
    "pumpsession s' =
       update_one (\<lambda>p. ps_id p = ps_id ps) (\<lambda>p. p\<lparr>ps_used := True, ps_updated_at := Some now\<rparr>)
         (pumpsession s)"
    "customer s' =
       update_one (\<lambda>c. c_id c = c_id cust)
         (\<lambda>c. c\<lparr>c_balance := round2 (pf_sub (c_balance cust) (round2 (pf_mul liters price))),
                 c_updated_at := Some now\<rparr>) (customer s)"
    "creditevent s' = creditevent s"
    "cr_receipt_no r = tx_receipt_no tx"
    "cr_total r = round2 (pf_mul liters price)"
    "cr_new_balance r = round2 (pf_sub (c_balance cust) (round2 (pf_mul liters price)))"
  using assms unfolding confirm_dispense_def
  by (auto simp: Let_def create_document_def split: option.splits sum.splits if_splits)

lemma confirm_dispense_runs:
  assumes "find_one (\<lambda>p. ps_token p = token) (pumpsession s) = Some ps"
    and "\<not> ps_used ps" and "\<not> ps_expires_at ps < now"
    and "customer_or_404 (ps_customer_id ps) s = Inr cust"
    and "FUEL_PRICES grade = Some price"
    and "\<not> pf_gt (round2 (pf_mul liters price)) (c_balance cust)"
    and "FuelTransaction (ps_customer_id ps) grade liters price (round2 (pf_mul liters price))
           (ps_pump_id ps) ''confirmed'' (Some (''RX'' @ str_int (int_timestamp now))) = res"
  shows "confirm_dispense now token liters grade s =
    (let new_balance = round2 (pf_sub (c_balance cust) (round2 (pf_mul liters price)));
         s1 = s\<lparr>customer := update_one (\<lambda>c. c_id c = c_id cust)
                  (\<lambda>c. c\<lparr>c_balance := new_balance, c_updated_at := Some now\<rparr>) (customer s)\<rparr>
     in case res of
          Inl e \<Rightarrow> (Inl e, s1)
        | Inr tx \<Rightarrow>
            (Inr \<lparr>cr_customer_id = ps_customer_id ps, cr_new_balance = new_balance,
                  cr_total = round2 (pf_mul liters price), cr_grade = grade, cr_liters = liters,
                  cr_price_per_liter = price, cr_receipt_no = tx_receipt_no tx\<rparr>,
             s1\<lparr>fueltransaction := fueltransaction s @ [tx],
                pumpsession := update_one (\<lambda>p. ps_id p = ps_id ps)
                  (\<lambda>p. p\<lparr>ps_used := True, ps_updated_at := Some now\<rparr>) (pumpsession s)\<rparr>))"
  using assms
  by (simp add: confirm_dispense_def FUEL_PRICES_truthy create_document_def Let_def
      split: sum.splits)

lemma topup_runs:
  assumes "\<not> pf_le amount (Fin 0)"
    and "customer_or_404 customer_id s = Inr cust"
    and "pf_gt amount (Fin 0)"
  shows "topup now customer_id amount note s =
    (Inr \<lparr>tr_customer_id = customer_id, tr_balance = pf_add (c_balance cust) amount\<rparr>,
     s\<lparr>customer := update_one (\<lambda>c. c_id c = c_id cust)
          (\<lambda>c. c\<lparr>c_balance := pf_add (c_balance cust) amount, c_updated_at := Some now\<rparr>)
          (customer s),
       creditevent := creditevent s @
          [\<lparr>ce_customer_id = customer_id, ce_amount = amount, ce_note = note\<rparr>]\<rparr>)"
  using assms by (simp add: topup_def CreditEvent_def create_document_def Let_def)

lemma customer_after_update:
  assumes "customer_or_404 customer_id s = Inr cust"
    and "c_id (f cust) = c_id cust"
    and "customer s' = update_one (\<lambda>c. c_id c = c_id cust) f (customer s)"
  shows "customer_or_404 customer_id s' = Inr (f cust)"
proof -
  from assms(1) obtain i where i: "oid customer_id = Inr i"
    and found: "List.find (\<lambda>c. c_id c = i) (customer s) = Some cust"
    by (auto simp: customer_or_404_def find_one_def split: sum.splits option.splits)
  from found have "c_id cust = i" by (auto simp: find_Some_iff)
  with found assms(2)
  have "List.find (\<lambda>c. c_id c = i) (update_one (\<lambda>c. c_id c = c_id cust) f (customer s)) = Some (f cust)"
    using find_update_same [of "\<lambda>c. c_id c = i" "customer s" cust f] by simp
  with i assms(3) show ?thesis by (simp add: customer_or_404_def find_one_def)
qed

subsection \<open>Float arithmetic of the scenarios\<close>

lemma total_10_G91: "round2 (pf_mul (Fin 10) (py_lit 218 2)) = py_lit 2180 2"
  by code_simp

lemma balance_50_minus_2180: "round2 (pf_sub (Fin 50) (py_lit 2180 2)) = py_lit 2820 2"
  by code_simp

lemma lit_2180: "py_lit 2180 2 = Fin (6136154492292301 / 281474976710656)"
  by code_simp

lemma lit_2820: "py_lit 2820 2 = Fin (7937594343240499 / 281474976710656)"
  by code_simp

lemma quotient_50_G91:
  "pf_div (Fin 50) (py_lit 218 2) = Some (Fin (806981011211743 / 35184372088832))"
  by code_simp

lemma round_quotient_50_G91:
  "round2 (Fin (806981011211743 / 35184372088832)) = py_lit 2294 2"
  by code_simp

lemma lit_2294: "py_lit 2294 2 = Fin (6457035965742449 / 281474976710656)"
  by code_simp

lemma lit_2293: "py_lit 2293 2 = Fin (3227110607987671 / 140737488355328)"
  by code_simp

lemma truthy_G91: "pf_truthy (py_lit 218 2)"
  by (simp add: price_G91 pf_truthy_def)

subsection \<open>Decimal rendering is injective\<close>

lemma str_digits_small: "n < 10 \<Longrightarrow> str_digits n = [char_of (48 + n)]"
  by (subst str_digits.simps) simp

lemma str_digits_big:
  "\<not> n < 10 \<Longrightarrow> str_digits n = str_digits (n div 10) @ [char_of (48 + n mod 10)]"
  by (subst str_digits.simps) simp

lemma str_digits_nonempty: "str_digits n \<noteq> []"
  by (cases "n < 10") (simp_all add: str_digits_small str_digits_big)

lemma digit_char_inj:
  assumes "char_of (48 + a) = char_of (48 + b)" "0 \<le> a" "a < 10" "0 \<le> b" "b < (10::int)"
  shows "a = b"
proof -
  from assms(1) have "(of_char (char_of (48 + a)) :: int) = of_char (char_of (48 + b))"
    by (rule arg_cong)
  then have "(48 + a) mod 256 = (48 + b) mod 256" by (simp only: of_char_of)
  with assms(2-5) show ?thesis by simp
qed

lemma digit_char_not_minus:
  assumes "0 \<le> a" "a < (10::int)"
  shows "char_of (48 + a) \<noteq> CHR ''-''"
proof
  assume "char_of (48 + a) = CHR ''-''"
  then have "(of_char (char_of (48 + a)) :: int) = of_char CHR ''-''" by (rule arg_cong)
  then have "(48 + a) mod 256 = 45" by (simp only: of_char_of) simp
  with assms show False by simp
qed

lemma str_digits_chars: "0 \<le> n \<Longrightarrow> CHR ''-'' \<notin> set (str_digits n)"
proof (induction n rule: str_digits.induct)
  case (1 n)
  show ?case
  proof (cases "n < 10")
    case True
    with "1.prems" show ?thesis
      using digit_char_not_minus [of n] by (simp add: str_digits_small)
  next
    case False
    have "0 \<le> n mod 10" "n mod 10 < 10" by simp_all
    then have last: "char_of (48 + n mod 10) \<noteq> CHR ''-''" by (rule digit_char_not_minus)
    from False "1.prems" have "0 \<le> n div 10" by simp
    with "1.IH" False have "CHR ''-'' \<notin> set (str_digits (n div 10))" by simp
    with last False show ?thesis by (simp add: str_digits_big)
  qed
qed

lemma str_digits_inj: "0 \<le> n \<Longrightarrow> 0 \<le> m \<Longrightarrow> str_digits n = str_digits m \<Longrightarrow> n = m"
proof (induction n arbitrary: m rule: str_digits.induct)
  case (1 n)
  show ?case
  proof (cases "n < 10")
    case small_n: True
    show ?thesis
    proof (cases "m < 10")
      case True
      with small_n "1.prems" have "char_of (48 + n) = char_of (48 + m)"
        by (simp add: str_digits_small)
      then show ?thesis using "1.prems"(1) small_n "1.prems"(2) True by (rule digit_char_inj)
    next
      case False
      with small_n "1.prems"(3) str_digits_nonempty [of "m div 10"] show ?thesis
        by (simp add: str_digits_small str_digits_big)
    qed
  next
    case big_n: False
    show ?thesis
    proof (cases "m < 10")
      case True
      with big_n "1.prems"(3) str_digits_nonempty [of "n div 10"] show ?thesis
        by (simp add: str_digits_small str_digits_big)
    next
      case False
      with big_n "1.prems"(3)
      have front: "str_digits (n div 10) = str_digits (m div 10)"
        and last_eq: "char_of (48 + n mod 10) = char_of (48 + m mod 10)"
        by (simp_all add: str_digits_big)
      from "1.prems"(1,2) have "0 \<le> n div 10" "0 \<le> m div 10" by simp_all
      with "1.IH" [OF big_n _ _ front] have quot: "n div 10 = m div 10" by simp
      from last_eq have rem: "n mod 10 = m mod 10" by (rule digit_char_inj) simp_all
      have "n = n div 10 * 10 + n mod 10" by (simp only: div_mult_mod_eq)
      also have "\<dots> = m div 10 * 10 + m mod 10" by (simp only: quot rem)
      also have "\<dots> = m" by (simp only: div_mult_mod_eq)
      finally show ?thesis .
    qed
  qed
qed

lemma str_int_inj: "str_int i = str_int j \<Longrightarrow> i = j"
proof (cases "i < 0"; cases "j < 0")
  assume "i < 0" "j < 0" "str_int i = str_int j"
  then have "- i = - j" by (intro str_digits_inj) (simp_all add: str_int_def)
  then show ?thesis by simp
next
  assume "i < 0" "\<not> j < 0" "str_int i = str_int j"
  then have "str_digits j = CHR ''-'' # str_digits (- i)" by (simp add: str_int_def)
  then have "CHR ''-'' \<in> set (str_digits j)" by simp
  with \<open>\<not> j < 0\<close> str_digits_chars [of j] show ?thesis by simp
next
  assume "\<not> i < 0" "j < 0" "str_int i = str_int j"
  then have "str_digits i = CHR ''-'' # str_digits (- j)" by (simp add: str_int_def)
  then have "CHR ''-'' \<in> set (str_digits i)" by simp
  with \<open>\<not> i < 0\<close> str_digits_chars [of i] show ?thesis by simp
next
  assume "\<not> i < 0" "\<not> j < 0" "str_int i = str_int j"
  then show ?thesis by (intro str_digits_inj) (simp_all add: str_int_def)
qed

subsection \<open>Overflow of the rounding\<close>

lemma pow2_powi: "pow2 e = 2 powi e"
  by (simp add: pow2_def power_int_def power_one_over inverse_eq_divide)

lemma pow2_pos: "0 < pow2 e"
  by (simp add: pow2_powi)

lemma pow2_add: "pow2 (i + j) = pow2 i * pow2 j"
  by (simp add: pow2_powi power_int_add)

lemma pow2_diff: "pow2 (i - j) = pow2 i / pow2 j"
  by (simp add: pow2_powi power_int_diff)

lemma pow2_mono: "i \<le> j \<Longrightarrow> pow2 i \<le> pow2 j"
  by (simp add: pow2_powi power_int_increasing)

lemma pow2_less_cancel: "pow2 i < pow2 j \<Longrightarrow> i < j"
  using pow2_mono [of j i] by (cases "i < j") auto

lemma pow2_nat: "0 \<le> k \<Longrightarrow> pow2 k = of_int (2 ^ nat k)"
  by (simp add: pow2_def)

lemma pow2_le_of_int: "0 \<le> k \<Longrightarrow> 2 ^ nat k \<le> n \<Longrightarrow> pow2 k \<le> of_int n"
proof -
  assume "0 \<le> k" and "2 ^ nat k \<le> n"
  from this(2) have "(of_int (2 ^ nat k) :: rat) \<le> of_int n" by (simp only: of_int_le_iff)
  with \<open>0 \<le> k\<close> show ?thesis by (simp only: pow2_nat)
qed

lemma of_int_less_pow2: "0 \<le> k \<Longrightarrow> n < 2 ^ nat k \<Longrightarrow> of_int n < pow2 k"
proof -
  assume "0 \<le> k" and "n < 2 ^ nat k"
  from this(2) have "(of_int n :: rat) < of_int (2 ^ nat k)" by (simp only: of_int_less_iff)
  with \<open>0 \<le> k\<close> show ?thesis by (simp only: pow2_nat)
qed

lemma bit_length_bounds:
  "0 < n \<Longrightarrow> 1 \<le> bit_length n \<and> 2 ^ nat (bit_length n - 1) \<le> n \<and> n < 2 ^ nat (bit_length n)"
proof (induction n rule: bit_length.induct)
  case (1 n)
  from "1.prems" have unfold: "bit_length n = bit_length (n div 2) + 1"
    by (subst bit_length.simps) simp
  show ?case
  proof (cases "n div 2 = 0")
    case True
    with "1.prems" have "n = 1" by presburger
    moreover have "bit_length 0 = 0" by (subst bit_length.simps) simp
    ultimately show ?thesis using unfold by simp
  next
    case False
    with "1.prems" have half: "0 < n div 2" by presburger
    with "1.IH" "1.prems" have ih: "1 \<le> bit_length (n div 2)"
      "2 ^ nat (bit_length (n div 2) - 1) \<le> n div 2"
      "n div 2 < 2 ^ nat (bit_length (n div 2))"
      by simp_all
    let ?b = "bit_length (n div 2)"
    from ih(1) have step: "nat ?b = Suc (nat (?b - 1))" by simp
    have "(2::int) ^ nat ?b = 2 * 2 ^ nat (?b - 1)" by (subst step) simp
    also from ih(2) have "\<dots> \<le> 2 * (n div 2)" by simp
    also have "\<dots> \<le> n" by presburger
    finally have lower: "2 ^ nat (bit_length n - 1) \<le> n" by (simp add: unfold)
    from ih(1) have "nat (?b + 1) = Suc (nat ?b)" by simp
    then have "(2::int) ^ nat (?b + 1) = 2 * 2 ^ nat ?b" by simp
    moreover from ih(3) have "n div 2 + 1 \<le> 2 ^ nat ?b" by simp
    moreover have "n < 2 * (n div 2 + 1)" by presburger
    ultimately have upper: "n < 2 ^ nat (bit_length n)" by (simp add: unfold)
    from ih(1) lower upper show ?thesis by (simp add: unfold)
  qed
qed

lemma ilog2_bounds:
  assumes "0 < a"
  shows "pow2 (ilog2 a) \<le> a \<and> a < pow2 (ilog2 a + 1)"
proof -
  obtain p q where pq: "quotient_of a = (p, q)" by (cases "quotient_of a")
  then have q: "0 < q" and a: "a = of_int p / of_int q"
    by (rule quotient_of_denom_pos, rule quotient_of_div)
  from assms a q have p: "0 < p" by (simp add: zero_less_divide_iff)
  let ?bp = "bit_length p" and ?bq = "bit_length q"
  from bit_length_bounds [OF p] have bp: "1 \<le> ?bp" "2 ^ nat (?bp - 1) \<le> p" "p < 2 ^ nat ?bp"
    by simp_all
  from bit_length_bounds [OF q] have bq: "1 \<le> ?bq" "2 ^ nat (?bq - 1) \<le> q" "q < 2 ^ nat ?bq"
    by simp_all
  have p_lo: "pow2 (?bp - 1) \<le> of_int p" using bp(1,2) by (simp add: pow2_le_of_int)
  have p_hi: "of_int p < pow2 ?bp" using bp(1,3) by (simp add: of_int_less_pow2)
  have q_lo: "pow2 (?bq - 1) \<le> of_int q" using bq(1,2) by (simp add: pow2_le_of_int)
  have q_hi: "of_int q < pow2 ?bq" using bq(1,3) by (simp add: of_int_less_pow2)
  have "a < pow2 ?bp / pow2 (?bq - 1)"
  proof -
    have "a < pow2 ?bp / of_int q" unfolding a using p_hi q by (simp add: divide_strict_right_mono)
    also have "\<dots> \<le> pow2 ?bp / pow2 (?bq - 1)"
      using q_lo pow2_pos [of "?bq - 1"] pow2_pos [of ?bp] by (simp add: frac_le)
    finally show ?thesis .
  qed
  then have upper: "a < pow2 (?bp - ?bq + 1)"
    using pow2_diff [of ?bp "?bq - 1"] by (simp add: algebra_simps)
  have "pow2 (?bp - 1) / pow2 ?bq < a"
  proof -
    have "pow2 (?bp - 1) / pow2 ?bq < pow2 (?bp - 1) / of_int q"
      using q_hi q pow2_pos [of "?bp - 1"] by (simp add: divide_strict_left_mono)
    also have "\<dots> \<le> a" unfolding a using p_lo q by (simp add: divide_right_mono)
    finally show ?thesis .
  qed
  then have lower: "pow2 (?bp - ?bq - 1) < a"
    using pow2_diff [of "?bp - 1" ?bq] by (simp add: algebra_simps)
  show ?thesis
  proof (cases "pow2 (?bp - ?bq) \<le> a")
    case True
    with pq upper show ?thesis by (simp add: ilog2_def)
  next
    case False
    with pq lower show ?thesis by (simp add: ilog2_def)
  qed
qed

lemma round_half_even_lower: "of_int n \<le> x \<Longrightarrow> n \<le> round_half_even x"
proof -
  assume "of_int n \<le> x"
  then have "n \<le> \<lfloor>x\<rfloor>" by (simp add: le_floor_iff)
  then show ?thesis by (simp add: round_half_even_def Let_def)
qed

lemma fl_overflow:
  assumes "pow2 1024 \<le> x"
  shows "fl x = PInf"
proof -
  from assms pow2_pos [of 1024] have x: "0 < x" by simp
  with ilog2_bounds [of x] assms have "pow2 1024 < pow2 (ilog2 x + 1)" by simp
  then have "1024 < ilog2 x + 1" by (rule pow2_less_cancel)
  with x show ?thesis by (simp add: fl_def Let_def)
qed

lemma fl_large:
  assumes "pow2 1023 \<le> x"
  shows "fl x = PInf \<or> (\<exists>b. fl x = Fin b \<and> pow2 1023 \<le> b)"
proof -
  from assms pow2_pos [of 1023] have x: "0 < x" by simp
  from ilog2_bounds [OF x] have lo: "pow2 (ilog2 x) \<le> x" and hi: "x < pow2 (ilog2 x + 1)"
    by simp_all
  from assms hi have "pow2 1023 < pow2 (ilog2 x + 1)" by simp
  then have big: "1023 \<le> ilog2 x" using pow2_less_cancel [of 1023 "ilog2 x + 1"] by simp
  let ?e = "ilog2 x - 52"
  let ?m = "round_half_even (x / pow2 ?e)"
  from big have e: "max ?e (- 1074) = ?e" by simp
  have "pow2 52 = pow2 (ilog2 x) / pow2 ?e" using pow2_diff [of "ilog2 x" ?e] by simp
  also from lo pow2_pos [of ?e] have "\<dots> \<le> x / pow2 ?e" by (simp add: divide_right_mono)
  finally have "of_int (2 ^ 52) \<le> x / pow2 ?e" by (simp add: pow2_def)
  then have "2 ^ 52 \<le> ?m" by (rule round_half_even_lower)
  then have "(of_int (2 ^ 52) :: rat) \<le> of_int ?m" by (simp only: of_int_le_iff)
  then have "pow2 52 * pow2 ?e \<le> of_int ?m * pow2 ?e"
    using pow2_pos [of ?e] by (simp add: pow2_def)
  moreover have "pow2 52 * pow2 ?e = pow2 (ilog2 x)" using pow2_add [of 52 ?e] by simp
  moreover from big have "pow2 1023 \<le> pow2 (ilog2 x)" by (rule pow2_mono)
  ultimately have "pow2 1023 \<le> of_int ?m * pow2 ?e" by simp
  with x e show ?thesis by (simp add: fl_def Let_def)
qed

lemma two_huge_topups_overflow:
  assumes "0 \<le> b"
  shows "pf_add (pf_add (Fin b) (Fin (pow2 1023))) (Fin (pow2 1023)) = PInf"
proof -
  from assms have "pow2 1023 \<le> b + pow2 1023" by simp
  then consider "fl (b + pow2 1023) = PInf"
    | c where "fl (b + pow2 1023) = Fin c" "pow2 1023 \<le> c"
    using fl_large [of "b + pow2 1023"] by blast
  then show ?thesis
  proof cases
    case 1
    then show ?thesis by simp
  next
    case 2
    have "pow2 1024 = pow2 1023 + pow2 1023" using pow2_add [of 1023 1] by (simp add: pow2_def)
    with 2(2) have "pow2 1024 \<le> c + pow2 1023" by simp
    then have "fl (c + pow2 1023) = PInf" by (rule fl_overflow)
    with 2(1) show ?thesis by simp
  qed
qed

lemma huge_volume_total: "round2 (pf_mul (Fin (pow2 1023)) (py_lit 218 2)) = PInf"
proof -
  let ?r = "4908923593833841 / 2251799813685248 :: rat"
  have "pow2 1024 = pow2 1023 * 2" using pow2_add [of 1023 1] by (simp add: pow2_def)
  also have "\<dots> \<le> pow2 1023 * ?r" using pow2_pos [of 1023] by simp
  finally have "fl (pow2 1023 * ?r) = PInf" by (rule fl_overflow)
  then show ?thesis by (simp add: price_G91)
qed

lemma overflow_scenario:
  assumes cust: "customer_or_404 cid s = Inr cust"
    and balance: "c_balance cust = Fin b" "0 \<le> b"
    and session: "find_one (\<lambda>p. ps_token p = token) (pumpsession s) = Some ps"
      "\<not> ps_used ps" "\<not> ps_expires_at ps < t3" "ps_customer_id ps = cid"
  shows "map_sum id c_balance
           (customer_or_404 cid
              (snd (confirm_dispense t3 token (Fin (pow2 1023)) ''G91''
                 (snd (topup t2 cid (Fin (pow2 1023)) note2
                    (snd (topup t1 cid (Fin (pow2 1023)) note1 s))))))) = Inr NaN"
proof -
  let ?huge = "Fin (pow2 1023)"
  have positive: "\<not> pf_le ?huge (Fin 0)" "pf_gt ?huge (Fin 0)"
    using pow2_pos [of 1023] by (simp_all add: pf_gt_def)
  define b1 where "b1 = pf_add (c_balance cust) ?huge"
  define cust1 where "cust1 = cust\<lparr>c_balance := b1, c_updated_at := Some t1\<rparr>"
  define s1 where "s1 = snd (topup t1 cid ?huge note1 s)"
  have s1: "customer s1 = update_one (\<lambda>c. c_id c = c_id cust)
              (\<lambda>c. c\<lparr>c_balance := b1, c_updated_at := Some t1\<rparr>) (customer s)"
    "pumpsession s1 = pumpsession s"
    unfolding s1_def b1_def by (simp_all add: topup_runs [OF positive(1) cust positive(2)])
  have cust_s1: "customer_or_404 cid s1 = Inr cust1"
    unfolding cust1_def by (rule customer_after_update [OF cust _ s1(1)]) simp
  define b2 where "b2 = pf_add (c_balance cust1) ?huge"
  define cust2 where "cust2 = cust1\<lparr>c_balance := b2, c_updated_at := Some t2\<rparr>"
  define s2 where "s2 = snd (topup t2 cid ?huge note2 s1)"
  have s2: "customer s2 = update_one (\<lambda>c. c_id c = c_id cust1)
              (\<lambda>c. c\<lparr>c_balance := b2, c_updated_at := Some t2\<rparr>) (customer s1)"
    "pumpsession s2 = pumpsession s1"
    unfolding s2_def b2_def by (simp_all add: topup_runs [OF positive(1) cust_s1 positive(2)])
  have cust_s2: "customer_or_404 cid s2 = Inr cust2"
    unfolding cust2_def by (rule customer_after_update [OF cust_s1 _ s2(1)]) simp
  have "b2 = PInf"
    unfolding b2_def cust1_def b1_def using two_huge_topups_overflow [OF balance(2)]
    by (simp add: balance(1))
  then have infinite: "c_balance cust2 = PInf" by (simp add: cust2_def)
  define s3 where "s3 = snd (confirm_dispense t3 token ?huge ''G91'' s2)"
  have s3: "customer s3 = update_one (\<lambda>c. c_id c = c_id cust2)
          (\<lambda>c. c\<lparr>c_balance := NaN, c_updated_at := Some t3\<rparr>) (customer s2)"
  proof -
    have found: "find_one (\<lambda>p. ps_token p = token) (pumpsession s2) = Some ps"
      using session(1) by (simp add: s1(2) s2(2))
    have owner: "customer_or_404 (ps_customer_id ps) s2 = Inr cust2"
      using cust_s2 by (simp add: session(4))
    have affordable: "\<not> pf_gt (round2 (pf_mul ?huge (py_lit 218 2))) (c_balance cust2)"
      by (simp add: huge_volume_total infinite pf_gt_def)
    note run = confirm_dispense_runs [OF found session(2,3) owner FUEL_PRICES_G91 affordable refl]
    show ?thesis
      unfolding s3_def
      by (simp add: run huge_volume_total infinite pf_sub_def Let_def split: sum.splits)
  qed
  have "customer_or_404 cid s3 = Inr (cust2\<lparr>c_balance := NaN, c_updated_at := Some t3\<rparr>)"
    by (rule customer_after_update [OF cust_s2 _ s3]) simp
  then show ?thesis by (simp add: s3_def s2_def s1_def)
qed

subsection \<open>The small database\<close>

lemma db0_session0:
  "find_one (\<lambda>p. ps_token p = ''a1b2c3d4e5f6'') (pumpsession db0) = Some ps0"
  by (simp add: db0_def ps0_def ps1_def PumpSession_def find_one_def)

lemma db0_session_ids: "distinct (map ps_id (pumpsession db0))"
  by (simp add: db0_def ps0_def ps1_def PumpSession_def)

lemma ps0_fields:
  "ps_used ps0 = False" "ps_expires_at ps0 = 1700000300000000"
  "ps_customer_id ps0 = ''000000000000000000000001''" "ps_id ps0 = 7"
  "ps_pump_id ps0 = ''pump-1''" "ps_token ps0 = ''a1b2c3d4e5f6''"
  by (simp_all add: ps0_def PumpSession_def)

lemma ps1_fields:
  "ps_used ps1 = False" "ps_expires_at ps1 = 1700000300000000"
  "ps_customer_id ps1 = ''000000000000000000000002''" "ps_id ps1 = 8"
  "ps_pump_id ps1 = ''pump-2''" "ps_token ps1 = ''0f1e2d3c4b5a''"
  by (simp_all add: ps1_def PumpSession_def)

lemma oid_1: "oid ''000000000000000000000001'' = Inr 1"
  by code_simp

lemma oid_2: "oid ''000000000000000000000002'' = Inr 2"
  by code_simp

lemma oid_9: "oid ''000000000000000000000009'' = Inr 9"
  by code_simp

lemma db0_customer0: "customer_or_404 ''000000000000000000000001'' db0 = Inr cust0"
  by (simp add: customer_or_404_def oid_1 find_one_def db0_def cust0_def)

lemma db0_customer1: "customer_or_404 ''000000000000000000000002'' db0 = Inr cust1"
  by (simp add: customer_or_404_def oid_2 find_one_def db0_def cust0_def cust1_def)

lemma cust_balances: "c_balance cust0 = Fin 50" "c_balance cust1 = Fin 50"
  by (simp_all add: cust0_def cust1_def)

lemma cust_ids: "c_id cust0 = 1" "c_id cust1 = 2"
  by (simp_all add: cust0_def cust1_def)

lemma urandom_hex: "hex [161, 178, 195, 212, 229, 246] = ''a1b2c3d4e5f6''"
  by code_simp

lemma seconds_of_clock:
  "str_int (int_timestamp 1700000000100000) = ''1700000000''"
  "str_int (int_timestamp 1700000000900000) = ''1700000000''"
  by code_simp+

subsection \<open>Ten litres of G91 on a balance of 50.00\<close>

lemma confirm_10_G91_run:
  assumes "find_one (\<lambda>p. ps_token p = token) (pumpsession s) = Some ps"
    and "\<not> ps_used ps" and "\<not> ps_expires_at ps < now"
    and "customer_or_404 (ps_customer_id ps) s = Inr cust"
    and "c_balance cust = Fin 50"
  shows "confirm_dispense now token (Fin 10) ''G91'' s =
    (Inr \<lparr>cr_customer_id = ps_customer_id ps, cr_new_balance = py_lit 2820 2,
          cr_total = py_lit 2180 2, cr_grade = ''G91'', cr_liters = Fin 10,
          cr_price_per_liter = py_lit 218 2,
          cr_receipt_no = Some (''RX'' @ str_int (int_timestamp now))\<rparr>,
     s\<lparr>customer := update_one (\<lambda>c. c_id c = c_id cust)
          (\<lambda>c. c\<lparr>c_balance := py_lit 2820 2, c_updated_at := Some now\<rparr>) (customer s),
       fueltransaction := fueltransaction s @
          [\<lparr>tx_customer_id = ps_customer_id ps, tx_grade = ''G91'', tx_liters = Fin 10,
            tx_price_per_liter = py_lit 218 2, tx_total = py_lit 2180 2,
            tx_pump_id = ps_pump_id ps, tx_status = ''confirmed'',
            tx_receipt_no = Some (''RX'' @ str_int (int_timestamp now))\<rparr>],
       pumpsession := update_one (\<lambda>p. ps_id p = ps_id ps)
          (\<lambda>p. p\<lparr>ps_used := True, ps_updated_at := Some now\<rparr>) (pumpsession s)\<rparr>)"
proof -
  have affordable: "\<not> pf_gt (py_lit 2180 2) (Fin 50)"
    by (simp add: lit_2180 pf_gt_def)
  have valid: "FuelTransaction (ps_customer_id ps) ''G91'' (Fin 10) (py_lit 218 2) (py_lit 2180 2)
                 (ps_pump_id ps) ''confirmed'' (Some (''RX'' @ str_int (int_timestamp now)))
               = Inr \<lparr>tx_customer_id = ps_customer_id ps, tx_grade = ''G91'', tx_liters = Fin 10,
                      tx_price_per_liter = py_lit 218 2, tx_total = py_lit 2180 2,
                      tx_pump_id = ps_pump_id ps, tx_status = ''confirmed'',
                      tx_receipt_no = Some (''RX'' @ str_int (int_timestamp now))\<rparr>"
    by (simp add: FuelTransaction_def pf_gt_def price_G91 lit_2180)
  show ?thesis
    using assms affordable valid
    by (simp add: confirm_dispense_def FUEL_PRICES_G91 truthy_G91 total_10_G91
        balance_50_minus_2180 create_document_def Let_def)
qed

lemma db0_first_confirm:
  "confirm_dispense now ''a1b2c3d4e5f6'' (Fin 10) ''G91'' db0 =
    (Inr \<lparr>cr_customer_id = ''000000000000000000000001'', cr_new_balance = py_lit 2820 2,
          cr_total = py_lit 2180 2, cr_grade = ''G91'', cr_liters = Fin 10,
          cr_price_per_liter = py_lit 218 2,
          cr_receipt_no = Some (''RX'' @ str_int (int_timestamp now))\<rparr>,
     db0\<lparr>customer := [cust0\<lparr>c_balance := py_lit 2820 2, c_updated_at := Some now\<rparr>, cust1],
       fueltransaction :=
          [\<lparr>tx_customer_id = ''000000000000000000000001'', tx_grade = ''G91'',
            tx_liters = Fin 10, tx_price_per_liter = py_lit 218 2, tx_total = py_lit 2180 2,
            tx_pump_id = ''pump-1'', tx_status = ''confirmed'',
            tx_receipt_no = Some (''RX'' @ str_int (int_timestamp now))\<rparr>],
       pumpsession := [ps0\<lparr>ps_used := True, ps_updated_at := Some now\<rparr>, ps1]\<rparr>)"
  if "now \<le> 1700000300000000"
proof -
  have "customer_or_404 (ps_customer_id ps0) db0 = Inr cust0"
    by (simp add: ps0_fields db0_customer0)
  with db0_session0 that
  have "confirm_dispense now ''a1b2c3d4e5f6'' (Fin 10) ''G91'' db0 =
    (Inr \<lparr>cr_customer_id = ps_customer_id ps0, cr_new_balance = py_lit 2820 2,
          cr_total = py_lit 2180 2, cr_grade = ''G91'', cr_liters = Fin 10,
          cr_price_per_liter = py_lit 218 2,
          cr_receipt_no = Some (''RX'' @ str_int (int_timestamp now))\<rparr>,
     db0\<lparr>customer := update_one (\<lambda>c. c_id c = c_id cust0)
          (\<lambda>c. c\<lparr>c_balance := py_lit 2820 2, c_updated_at := Some now\<rparr>) (customer db0),
       fueltransaction := fueltransaction db0 @
          [\<lparr>tx_customer_id = ps_customer_id ps0, tx_grade = ''G91'', tx_liters = Fin 10,
            tx_price_per_liter = py_lit 218 2, tx_total = py_lit 2180 2,
            tx_pump_id = ps_pump_id ps0, tx_status = ''confirmed'',
            tx_receipt_no = Some (''RX'' @ str_int (int_timestamp now))\<rparr>],
       pumpsession := update_one (\<lambda>p. ps_id p = ps_id ps0)
          (\<lambda>p. p\<lparr>ps_used := True, ps_updated_at := Some now\<rparr>) (pumpsession db0)\<rparr>)"
    by (intro confirm_10_G91_run) (simp_all add: ps0_fields cust_balances)
  also have "customer db0 = [cust0, cust1]" "fueltransaction db0 = []"
    "pumpsession db0 = [ps0, ps1]"
    by (simp_all add: db0_def)
  ultimately show ?thesis
    by (simp add: ps0_fields ps1_fields cust_ids)
qed

lemma db0_second_confirm:
  assumes "t \<le> 1700000300000000" "now \<le> 1700000300000000"
  shows "map_sum id cr_receipt_no
           (fst (confirm_dispense now ''0f1e2d3c4b5a'' (Fin 10) ''G91''
              (snd (confirm_dispense t ''a1b2c3d4e5f6'' (Fin 10) ''G91'' db0))))
         = Inr (Some (''RX'' @ str_int (int_timestamp now)))"
    and "map tx_receipt_no (fueltransaction
           (snd (confirm_dispense now ''0f1e2d3c4b5a'' (Fin 10) ''G91''
              (snd (confirm_dispense t ''a1b2c3d4e5f6'' (Fin 10) ''G91'' db0)))))
         = [Some (''RX'' @ str_int (int_timestamp t)), Some (''RX'' @ str_int (int_timestamp now))]"
proof -
  let ?s1 = "snd (confirm_dispense t ''a1b2c3d4e5f6'' (Fin 10) ''G91'' db0)"
  note first = db0_first_confirm [OF assms(1)]
  have session: "find_one (\<lambda>p. ps_token p = ''0f1e2d3c4b5a'') (pumpsession ?s1) = Some ps1"
    by (simp add: first find_one_def ps0_fields ps1_fields)
  have owner: "customer_or_404 (ps_customer_id ps1) ?s1 = Inr cust1"
    by (simp add: first ps1_fields customer_or_404_def oid_2 find_one_def cust_ids)
  note second = confirm_10_G91_run [OF session _ _ owner cust_balances(2), of now]
  show "map_sum id cr_receipt_no
           (fst (confirm_dispense now ''0f1e2d3c4b5a'' (Fin 10) ''G91'' ?s1))
         = Inr (Some (''RX'' @ str_int (int_timestamp now)))"
    using assms(2) by (simp add: second ps1_fields)
  show "map tx_receipt_no (fueltransaction
           (snd (confirm_dispense now ''0f1e2d3c4b5a'' (Fin 10) ''G91'' ?s1)))
         = [Some (''RX'' @ str_int (int_timestamp t)), Some (''RX'' @ str_int (int_timestamp now))]"
    using assms(2) by (simp add: second ps1_fields) (simp add: first)
qed

lemma calc_liters_G91_50:
  assumes "customer_or_404 customer_id s = Inr cust"
    and "c_balance cust = Fin 50"
  shows "calc_liters customer_id ''G91'' s =
           (Inr \<lparr>cl_grade = ''G91'', cl_price = py_lit 218 2, cl_max_liters = py_lit 2294 2\<rparr>, s)"
  using assms
  by (simp add: calc_liters_def FUEL_PRICES_G91 truthy_G91 quotient_50_G91
      round_quotient_50_G91 del: round2.simps)

subsection \<open>A negative volume\<close>

lemma total_minus_10_G91: "round2 (pf_mul (Fin (- 10)) (py_lit 218 2)) = py_lit (- 2180) 2"
  by code_simp

lemma lit_minus_2180: "py_lit (- 2180) 2 = Fin (- (6136154492292301 / 281474976710656))"
  by code_simp

lemma balance_50_plus_2180: "round2 (pf_sub (Fin 50) (py_lit (- 2180) 2)) = py_lit 7180 2"
  by code_simp

lemma lit_7180: "py_lit 7180 2 = Fin (5052475831956275 / 70368744177664)"
  by code_simp

section \<open>Properties of the endpoints\<close>

text \<open>
  C1. Replay of a token. When a first call of \<open>confirm_dispense\<close> with a token succeeds,
  every later call with the same token, whatever its volume, grade and time, fails with
  ``Session already used'' and changes nothing; the first call has recorded exactly one
  fuel transaction. The \<open>_id\<close>s of the stored sessions are distinct, as MongoDB has them.
\<close>

theorem confirm_replay_rejected:
  assumes "distinct (map ps_id (pumpsession s))"
    and "confirm_dispense now token liters grade s = (Inr r, s')"
  shows "confirm_dispense now' token liters' grade' s' = (Inl SessionAlreadyUsed, s')
         \<and> (\<exists>tx. fueltransaction s' = fueltransaction s @ [tx])"
proof -
  from assms(2) obtain ps tx where
    found: "find_one (\<lambda>p. ps_token p = token) (pumpsession s) = Some ps"
    and txs: "fueltransaction s' = fueltransaction s @ [tx]"
    and sessions: "pumpsession s' =
       update_one (\<lambda>p. ps_id p = ps_id ps) (\<lambda>p. p\<lparr>ps_used := True, ps_updated_at := Some now\<rparr>)
         (pumpsession s)"
    by (rule confirm_dispense_success)
  from assms(1) found
  have "find_one (\<lambda>p. ps_token p = token) (pumpsession s') =
          Some (ps\<lparr>ps_used := True, ps_updated_at := Some now\<rparr>)"
    unfolding sessions find_one_def by (rule find_token_update_id) simp
  then have "confirm_dispense now' token liters' grade' s' = (Inl SessionAlreadyUsed, s')"
    by (simp add: confirm_dispense_def)
  with txs show ?thesis by simp
qed

theorem confirm_replay_rejected_witness:
  "confirm_dispense 1700000060000000 ''a1b2c3d4e5f6'' (Fin 5) ''G95''
     (snd (confirm_dispense 1700000000100000 ''a1b2c3d4e5f6'' (Fin 10) ''G91'' db0))
   = (Inl SessionAlreadyUsed,
      snd (confirm_dispense 1700000000100000 ''a1b2c3d4e5f6'' (Fin 10) ''G91'' db0))
   \<and> length (fueltransaction
        (snd (confirm_dispense 1700000000100000 ''a1b2c3d4e5f6'' (Fin 10) ''G91'' db0)))
     = Suc (length (fueltransaction db0))"
proof -
  have first: "confirm_dispense 1700000000100000 ''a1b2c3d4e5f6'' (Fin 10) ''G91'' db0 =
      (Inr (projr (fst (confirm_dispense 1700000000100000 ''a1b2c3d4e5f6'' (Fin 10) ''G91'' db0))),
       snd (confirm_dispense 1700000000100000 ''a1b2c3d4e5f6'' (Fin 10) ''G91'' db0))"
    by (simp add: db0_first_confirm)
  from confirm_replay_rejected [OF db0_session_ids first,
      of 1700000060000000 "Fin 5" "''G95''"]
  show ?thesis by auto
qed

text \<open>
  C2. Insufficient balance. When the session is found, unused and not expired, its customer
  exists, the grade is priced, and the total \<open>round(liters * price, 2)\<close> exceeds the
  customer's balance, \<open>confirm_dispense\<close> fails with ``Insufficient balance'' and returns
  the database as it was: the balance is not debited, no transaction is recorded and the
  session stays unused.
\<close>

theorem confirm_insufficient_balance:
  assumes "find_one (\<lambda>p. ps_token p = token) (pumpsession s) = Some ps"
    and "\<not> ps_used ps" and "\<not> ps_expires_at ps < now"
    and "customer_or_404 (ps_customer_id ps) s = Inr cust"
    and "FUEL_PRICES grade = Some price"
    and "pf_gt (round2 (pf_mul liters price)) (c_balance cust)"
  shows "confirm_dispense now token liters grade s = (Inl InsufficientBalance, s)"
  using assms by (simp add: confirm_dispense_def FUEL_PRICES_truthy)

theorem confirm_insufficient_balance_witness:
  "confirm_dispense 1700000000000000 ''a1b2c3d4e5f6'' (Fin 100) ''G91'' db0
     = (Inl InsufficientBalance, db0)"
proof (rule confirm_insufficient_balance [where ps = ps0 and cust = cust0
      and price = "py_lit 218 2"])
  show "pf_gt (round2 (pf_mul (Fin 100) (py_lit 218 2))) (c_balance cust0)"
    unfolding cust_balances by code_simp
qed (simp_all add: db0_session0 ps0_fields db0_customer0 FUEL_PRICES_G91)

text \<open>
  C3. The balance stays non-negative. The code debits only when \<open>total > balance\<close> is
  false, and that comparison is also false when both are infinite. Starting from a balance
  of 50.00, two top-ups of \<open>2 ^ 1023\<close> (the float 8.98846567431158e307) overflow the
  balance to infinity; confirming \<open>2 ^ 1023\<close> litres of G91 then has an infinite total, is
  not refused, and stores \<open>inf - inf\<close>, which is NaN and not \<open>\<ge> 0\<close>.
\<close>

theorem balance_nan_after_overflow:
  "pf_ge (c_balance cust0) (Fin 0)
   \<and> map_sum id c_balance
       (customer_or_404 ''000000000000000000000001''
          (snd (confirm_dispense 1700000200000000 ''a1b2c3d4e5f6'' (Fin (pow2 1023)) ''G91''
             (snd (topup 1700000100000000 ''000000000000000000000001'' (Fin (pow2 1023)) None
                (snd (topup 1700000000000000 ''000000000000000000000001'' (Fin (pow2 1023))
                   None db0))))))) = Inr NaN
   \<and> \<not> pf_ge NaN (Fin 0)"
proof -
  have "map_sum id c_balance
       (customer_or_404 ''000000000000000000000001''
          (snd (confirm_dispense 1700000200000000 ''a1b2c3d4e5f6'' (Fin (pow2 1023)) ''G91''
             (snd (topup 1700000100000000 ''000000000000000000000001'' (Fin (pow2 1023)) None
                (snd (topup 1700000000000000 ''000000000000000000000001'' (Fin (pow2 1023))
                   None db0))))))) = Inr NaN"
    by (rule overflow_scenario [OF db0_customer0 cust_balances(1) _ db0_session0])
      (simp_all add: ps0_fields)
  then show ?thesis by (simp add: cust_balances pf_ge_def)
qed

text \<open>
  C4. The scenario of ten litres. For an unused session that has not expired, whose
  customer has a balance of 50.00, \<open>confirm_dispense\<close> with 10 litres of G91 succeeds with
  total 21.80 and new balance 28.20; afterwards the customer's stored balance is 28.20, the
  session is used, and exactly one fuel transaction, of status ``confirmed'', was added.
\<close>

theorem confirm_10_liters_G91:
  assumes "distinct (map ps_id (pumpsession s))"
    and "find_one (\<lambda>p. ps_token p = token) (pumpsession s) = Some ps"
    and "\<not> ps_used ps" and "\<not> ps_expires_at ps < now"
    and "customer_or_404 (ps_customer_id ps) s = Inr cust"
    and "c_balance cust = Fin 50"
  shows "\<exists>r s' tx.
           confirm_dispense now token (Fin 10) ''G91'' s = (Inr r, s')
           \<and> cr_total r = py_lit 2180 2 \<and> cr_new_balance r = py_lit 2820 2
           \<and> customer_or_404 (ps_customer_id ps) s' =
                Inr (cust\<lparr>c_balance := py_lit 2820 2, c_updated_at := Some now\<rparr>)
           \<and> find_one (\<lambda>p. ps_token p = token) (pumpsession s') =
                Some (ps\<lparr>ps_used := True, ps_updated_at := Some now\<rparr>)
           \<and> fueltransaction s' = fueltransaction s @ [tx]
           \<and> tx_status tx = ''confirmed'' \<and> tx_total tx = py_lit 2180 2"
proof -
  let ?debit = "\<lambda>c. c\<lparr>c_balance := py_lit 2820 2, c_updated_at := Some now\<rparr>"
  let ?consume = "\<lambda>p. p\<lparr>ps_used := True, ps_updated_at := Some now\<rparr>"
  note run = confirm_10_G91_run [OF assms(2-6)]
  let ?s' = "snd (confirm_dispense now token (Fin 10) ''G91'' s)"
  have debited: "customer ?s' = update_one (\<lambda>c. c_id c = c_id cust) ?debit (customer s)"
    by (simp add: run)
  have cust': "customer_or_404 (ps_customer_id ps) ?s' = Inr (?debit cust)"
    by (rule customer_after_update [OF assms(5) _ debited]) simp
  have ps': "find_one (\<lambda>p. ps_token p = token) (pumpsession ?s') = Some (?consume ps)"
    using find_token_update_id [OF assms(1), of token ps ?consume] assms(2)
    by (simp add: run find_one_def)
  from cust' ps' show ?thesis by (simp add: run)
qed

theorem confirm_10_liters_G91_witness:
  "\<exists>r s' tx.
     confirm_dispense 1700000000000000 ''a1b2c3d4e5f6'' (Fin 10) ''G91'' db0 = (Inr r, s')
     \<and> cr_total r = py_lit 2180 2 \<and> cr_new_balance r = py_lit 2820 2
     \<and> customer_or_404 (ps_customer_id ps0) s' =
          Inr (cust0\<lparr>c_balance := py_lit 2820 2, c_updated_at := Some 1700000000000000\<rparr>)
     \<and> find_one (\<lambda>p. ps_token p = ''a1b2c3d4e5f6'') (pumpsession s') =
          Some (ps0\<lparr>ps_used := True, ps_updated_at := Some 1700000000000000\<rparr>)
     \<and> fueltransaction s' = fueltransaction db0 @ [tx]
     \<and> tx_status tx = ''confirmed'' \<and> tx_total tx = py_lit 2180 2"
  by (rule confirm_10_liters_G91)
    (simp_all add: db0_session0 db0_session_ids ps0_fields db0_customer0 cust_balances)

text \<open>
  C5. A volume that is not positive. The code has no check of the volume. With -10 litres
  of G91 on a balance of 50.00 the total is -21.80, which does not exceed the balance; the
  balance is set to 71.80, and only then does the \<open>FuelTransaction\<close> model reject the
  volume: the call ends in a \<open>ValidationError\<close>, no transaction is recorded, and the
  session is still unused.
\<close>

theorem negative_volume_credits_balance:
  "pf_le (Fin (- 10)) (Fin 0)
   \<and> confirm_dispense 1700000000000000 ''a1b2c3d4e5f6'' (Fin (- 10)) ''G91'' db0
     = (Inl ValidationError,
        db0\<lparr>customer :=
              [cust0\<lparr>c_balance := py_lit 7180 2, c_updated_at := Some 1700000000000000\<rparr>,
               cust1]\<rparr>)
   \<and> pf_gt (py_lit 7180 2) (c_balance cust0)"
proof -
  have owner: "customer_or_404 (ps_customer_id ps0) db0 = Inr cust0"
    by (simp add: ps0_fields db0_customer0)
  have affordable: "\<not> pf_gt (round2 (pf_mul (Fin (- 10)) (py_lit 218 2))) (c_balance cust0)"
    by (simp add: total_minus_10_G91 lit_minus_2180 cust_balances pf_gt_def del: round2.simps)
  have unused: "\<not> ps_used ps0" and live: "\<not> ps_expires_at ps0 < 1700000000000000"
    by (simp_all add: ps0_fields)
  have invalid: "FuelTransaction (ps_customer_id ps0) ''G91'' (Fin (- 10)) (py_lit 218 2)
      (round2 (pf_mul (Fin (- 10)) (py_lit 218 2))) (ps_pump_id ps0) ''confirmed''
      (Some (''RX'' @ str_int (int_timestamp 1700000000000000))) = Inl ValidationError"
    by (simp add: FuelTransaction_def pf_gt_def del: round2.simps)
  note run = confirm_dispense_runs
    [OF db0_session0 unused live owner FUEL_PRICES_G91 affordable invalid]
  have customers: "customer db0 = [cust0, cust1]"
    by (simp add: db0_def)
  have "confirm_dispense 1700000000000000 ''a1b2c3d4e5f6'' (Fin (- 10)) ''G91'' db0
     = (Inl ValidationError,
        db0\<lparr>customer :=
              [cust0\<lparr>c_balance := py_lit 7180 2, c_updated_at := Some 1700000000000000\<rparr>,
               cust1]\<rparr>)"
    by (simp add: run customers total_minus_10_G91 balance_50_plus_2180 cust_balances
        cust_ids Let_def del: round2.simps)
  then show ?thesis by (simp add: lit_7180 cust_balances pf_gt_def)
qed

text \<open>
  C6, as the code has it. The code refuses a session when \<open>expires_at < now\<close>. For a session
  that is found and unused, a call strictly after the expiry time fails with ``Session
  expired'' and changes nothing.
\<close>

theorem confirm_after_expiry:
  assumes "find_one (\<lambda>p. ps_token p = token) (pumpsession s) = Some ps"
    and "\<not> ps_used ps" and "ps_expires_at ps < now"
  shows "confirm_dispense now token liters grade s = (Inl SessionExpired, s)"
  using assms by (simp add: confirm_dispense_def)

theorem confirm_after_expiry_witness:
  "confirm_dispense 1700000300000001 ''a1b2c3d4e5f6'' (Fin 10) ''G91'' db0
     = (Inl SessionExpired, db0)"
  by (rule confirm_after_expiry [where ps = ps0]) (simp_all add: db0_session0 ps0_fields)

text \<open>
  C6 as stated fails at the expiry instant itself: with \<open>now = expires_at\<close> the unused
  session is still honoured and the call succeeds.
\<close>

theorem confirm_at_expiry_counterexample:
  "find_one (\<lambda>p. ps_token p = ''a1b2c3d4e5f6'') (pumpsession db0) = Some ps0
   \<and> ps_used ps0 = False \<and> ps_expires_at ps0 \<le> 1700000300000000
   \<and> fst (confirm_dispense 1700000300000000 ''a1b2c3d4e5f6'' (Fin 10) ''G91'' db0)
       \<noteq> Inl SessionExpired
   \<and> isl (fst (confirm_dispense 1700000300000000 ''a1b2c3d4e5f6'' (Fin 10) ''G91'' db0))
       = False"
  by (simp add: db0_session0 ps0_fields db0_first_confirm)

text \<open>
  C7, as the code has it. \<open>start_pump_session\<close> requires the customer to exist and nothing
  more: for a well-formed id with no customer document it fails with ``Customer not
  found'' and stores nothing; for a customer that exists it returns the token and stores
  the session, whatever the \<open>active\<close> flag of the customer.
\<close>

theorem start_pump_session_needs_existing_customer:
  "(oid customer_id = Inr i \<and> find_one (\<lambda>c. c_id c = i) (customer s) = None \<longrightarrow>
      start_pump_session now urandom new_id customer_id pump_id s = (Inl CustomerNotFound, s))
   \<and> (oid customer_id = Inr i \<and> find_one (\<lambda>c. c_id c = i) (customer s) = Some cust \<longrightarrow>
      start_pump_session now urandom new_id customer_id pump_id s =
        (Inr \<lparr>sr_token = hex urandom, sr_expires_in_sec = 300\<rparr>,
         s\<lparr>pumpsession := pumpsession s @
              [PumpSession new_id (hex urandom) customer_id pump_id (now + 300000000) False]\<rparr>))"
  by (simp add: start_pump_session_def customer_or_404_def create_document_def Let_def)

theorem start_pump_session_needs_existing_customer_witness:
  "start_pump_session 1700000000000000 [161, 178, 195, 212, 229, 246] 9
     ''000000000000000000000009'' ''pump-1'' db0 = (Inl CustomerNotFound, db0)
   \<and> c_active cust1 = False
   \<and> start_pump_session 1700000000000000 [161, 178, 195, 212, 229, 246] 9
       ''000000000000000000000002'' ''pump-1'' db0 =
       (Inr \<lparr>sr_token = hex [161, 178, 195, 212, 229, 246], sr_expires_in_sec = 300\<rparr>,
        db0\<lparr>pumpsession := pumpsession db0 @
             [PumpSession 9 (hex [161, 178, 195, 212, 229, 246]) ''000000000000000000000002''
                ''pump-1'' (1700000000000000 + 300000000) False]\<rparr>)"
proof -
  have missing: "find_one (\<lambda>c. c_id c = 9) (customer db0) = None"
    by (simp add: find_one_def db0_def cust0_def cust1_def)
  have present: "find_one (\<lambda>c. c_id c = 2) (customer db0) = Some cust1"
    by (simp add: find_one_def db0_def cust0_def cust1_def)
  from start_pump_session_needs_existing_customer
         [where customer_id = "''000000000000000000000009''" and i = 9 and s = db0
            and now = 1700000000000000 and urandom = "[161, 178, 195, 212, 229, 246]"
            and new_id = 9 and pump_id = "''pump-1''"]
       start_pump_session_needs_existing_customer
         [where customer_id = "''000000000000000000000002''" and i = 2 and s = db0
            and cust = cust1 and now = 1700000000000000
            and urandom = "[161, 178, 195, 212, 229, 246]"
            and new_id = 9 and pump_id = "''pump-1''"]
       oid_9 oid_2 missing present
  show ?thesis by (simp add: cust1_def)
qed

text \<open>
  C7 as stated fails: the second customer of the small database is not active, and a
  session is issued to it all the same.
\<close>

theorem start_pump_session_inactive_counterexample:
  "c_active cust1 = False
   \<and> customer_or_404 ''000000000000000000000002'' db0 = Inr cust1
   \<and> start_pump_session 1700000000000000 [161, 178, 195, 212, 229, 246] 9
       ''000000000000000000000002'' ''pump-1'' db0 =
       (Inr \<lparr>sr_token = ''a1b2c3d4e5f6'', sr_expires_in_sec = 300\<rparr>,
        db0\<lparr>pumpsession := pumpsession db0 @
             [PumpSession 9 ''a1b2c3d4e5f6'' ''000000000000000000000002''
                ''pump-1'' 1700000300000000 False]\<rparr>)"
  by (simp add: start_pump_session_def db0_customer1 urandom_hex create_document_def cust1_def
      Let_def)

text \<open>
  C8, as the code has it. The receipt number of a successful \<open>confirm_dispense\<close> is ``RX''
  followed by the whole seconds of the clock; it is the receipt number of the transaction
  the call records. Two successful calls have the same receipt number exactly when their
  clock readings fall in the same second.
\<close>

theorem receipt_number_by_second:
  assumes "confirm_dispense now1 token1 liters1 grade1 s1 = (Inr r1, s1')"
    and "confirm_dispense now2 token2 liters2 grade2 s2 = (Inr r2, s2')"
  shows "cr_receipt_no r1 = Some (''RX'' @ str_int (int_timestamp now1))
         \<and> (\<exists>tx. fueltransaction s1' = fueltransaction s1 @ [tx]
                  \<and> tx_receipt_no tx = cr_receipt_no r1)
         \<and> (cr_receipt_no r1 = cr_receipt_no r2) = (int_timestamp now1 = int_timestamp now2)"
proof -
  have receipt: "cr_receipt_no r = Some (''RX'' @ str_int (int_timestamp now))
      \<and> (\<exists>tx. fueltransaction s' = fueltransaction s @ [tx] \<and> tx_receipt_no tx = cr_receipt_no r)"
    if "confirm_dispense now token liters grade s = (Inr r, s')"
    for now token liters grade s r s'
  proof -
    from that obtain ps :: pumpsession_doc and price tx where
      tx: "FuelTransaction (ps_customer_id ps) grade liters price (round2 (pf_mul liters price))
             (ps_pump_id ps) ''confirmed'' (Some (''RX'' @ str_int (int_timestamp now))) = Inr tx"
      and txs: "fueltransaction s' = fueltransaction s @ [tx]"
      and r: "cr_receipt_no r = tx_receipt_no tx"
      by (rule confirm_dispense_success)
    from tx have "tx_receipt_no tx = Some (''RX'' @ str_int (int_timestamp now))"
      by (auto simp: FuelTransaction_def split: if_splits)
    with txs r show ?thesis by simp
  qed
  from receipt [OF assms(1)] receipt [OF assms(2)] show ?thesis
    by (auto dest: str_int_inj)
qed

theorem receipt_number_by_second_witness:
  "map_sum id cr_receipt_no
     (fst (confirm_dispense 1700000000100000 ''a1b2c3d4e5f6'' (Fin 10) ''G91'' db0))
   = Inr (Some (''RX'' @ str_int (int_timestamp 1700000000100000)))
   \<and> map_sum id cr_receipt_no
       (fst (confirm_dispense 1700000000100000 ''a1b2c3d4e5f6'' (Fin 10) ''G91'' db0))
     \<noteq> map_sum id cr_receipt_no
         (fst (confirm_dispense 1700000001100000 ''a1b2c3d4e5f6'' (Fin 10) ''G91'' db0))"
proof -
  have first: "confirm_dispense 1700000000100000 ''a1b2c3d4e5f6'' (Fin 10) ''G91'' db0 =
      (Inr (projr (fst (confirm_dispense 1700000000100000 ''a1b2c3d4e5f6'' (Fin 10) ''G91'' db0))),
       snd (confirm_dispense 1700000000100000 ''a1b2c3d4e5f6'' (Fin 10) ''G91'' db0))"
    by (simp add: db0_first_confirm)
  have later: "confirm_dispense 1700000001100000 ''a1b2c3d4e5f6'' (Fin 10) ''G91'' db0 =
      (Inr (projr (fst (confirm_dispense 1700000001100000 ''a1b2c3d4e5f6'' (Fin 10) ''G91'' db0))),
       snd (confirm_dispense 1700000001100000 ''a1b2c3d4e5f6'' (Fin 10) ''G91'' db0))"
    by (simp add: db0_first_confirm)
  have "int_timestamp 1700000000100000 \<noteq> int_timestamp 1700000001100000"
    by (simp add: int_timestamp_def)
  with receipt_number_by_second [OF first later] show ?thesis
    by (subst first, subst first, subst later) simp
qed

text \<open>
  C8 as stated fails: two different sessions confirmed within the same second, 0.1 s and
  0.9 s after 1700000000, both succeed and both record the receipt number RX1700000000.
\<close>

theorem receipt_same_second_counterexample:
  "map_sum id cr_receipt_no
     (fst (confirm_dispense 1700000000100000 ''a1b2c3d4e5f6'' (Fin 10) ''G91'' db0))
   = Inr (Some ''RX1700000000'')
   \<and> map_sum id cr_receipt_no
       (fst (confirm_dispense 1700000000900000 ''0f1e2d3c4b5a'' (Fin 10) ''G91''
          (snd (confirm_dispense 1700000000100000 ''a1b2c3d4e5f6'' (Fin 10) ''G91'' db0))))
     = Inr (Some ''RX1700000000'')
   \<and> map tx_receipt_no (fueltransaction
       (snd (confirm_dispense 1700000000900000 ''0f1e2d3c4b5a'' (Fin 10) ''G91''
          (snd (confirm_dispense 1700000000100000 ''a1b2c3d4e5f6'' (Fin 10) ''G91'' db0)))))
     = [Some ''RX1700000000'', Some ''RX1700000000'']"
proof -
  have early: "(1700000000100000 :: int) \<le> 1700000300000000"
    and late: "(1700000000900000 :: int) \<le> 1700000300000000"
    by simp_all
  note second = db0_second_confirm [OF early late]
  have "map_sum id cr_receipt_no
     (fst (confirm_dispense 1700000000100000 ''a1b2c3d4e5f6'' (Fin 10) ''G91'' db0))
   = Inr (Some ''RX1700000000'')"
    by (simp add: db0_first_confirm seconds_of_clock)
  moreover have "map_sum id cr_receipt_no
       (fst (confirm_dispense 1700000000900000 ''0f1e2d3c4b5a'' (Fin 10) ''G91''
          (snd (confirm_dispense 1700000000100000 ''a1b2c3d4e5f6'' (Fin 10) ''G91'' db0))))
     = Inr (Some ''RX1700000000'')"
    unfolding second(1) seconds_of_clock by simp
  moreover have "map tx_receipt_no (fueltransaction
       (snd (confirm_dispense 1700000000900000 ''0f1e2d3c4b5a'' (Fin 10) ''G91''
          (snd (confirm_dispense 1700000000100000 ''a1b2c3d4e5f6'' (Fin 10) ''G91'' db0)))))
     = [Some ''RX1700000000'', Some ''RX1700000000'']"
    unfolding second(2) seconds_of_clock by simp
  ultimately show ?thesis by (intro conjI)
qed

text \<open>
  C9, as the code has it. For a customer with a balance of 50.00 and grade G91, priced
  2.18, \<open>calc_liters\<close> returns \<open>max_liters = 22.94\<close>: 50 / 2.18 is 22.9357..., which rounds
  to 22.94 at two decimals. The database is returned unchanged.
\<close>

theorem calc_liters_50_G91:
  assumes "customer_or_404 customer_id s = Inr cust"
    and "c_balance cust = Fin 50"
  shows "calc_liters customer_id ''G91'' s =
           (Inr \<lparr>cl_grade = ''G91'', cl_price = py_lit 218 2, cl_max_liters = py_lit 2294 2\<rparr>, s)"
  using assms by (rule calc_liters_G91_50)

theorem calc_liters_50_G91_witness:
  "calc_liters ''000000000000000000000001'' ''G91'' db0 =
     (Inr \<lparr>cl_grade = ''G91'', cl_price = py_lit 218 2, cl_max_liters = py_lit 2294 2\<rparr>, db0)"
  by (rule calc_liters_50_G91 [OF db0_customer0 cust_balances(1)])

text \<open>
  C9 as stated fails: on the small database the result for the first customer is the float
  22.94, which is not the float 22.93.
\<close>

theorem calc_liters_2293_counterexample:
  "c_balance cust0 = Fin 50 \<and> FUEL_PRICES ''G91'' = Some (py_lit 218 2)
   \<and> map_sum id cl_max_liters (fst (calc_liters ''000000000000000000000001'' ''G91'' db0))
       = Inr (py_lit 2294 2)
   \<and> py_lit 2294 2 \<noteq> py_lit 2293 2"
  by (simp add: cust_balances FUEL_PRICES_G91
      calc_liters_G91_50 [OF db0_customer0 cust_balances(1)] lit_2294 lit_2293)

text \<open>
  C10. \<open>calc_liters\<close> is read-only: whatever it returns or raises, for every customer id,
  grade and database, the database it hands back is the one it was given, so no balance
  and no stored record changes.
\<close>

theorem calc_liters_read_only: "snd (calc_liters customer_id grade s) = s"
  by (simp add: calc_liters_def split: sum.splits option.splits)

end
